theory Spec2Isabelle
  imports Main "HOL-Library.AList"
begin

section \<open>Errors\<close>

text \<open>
  The exceptions that the functions of \<^verbatim>\<open>fastapi/utils.py\<close> can raise, as values.
  A function that may raise returns \<open>py_error + 'a\<close>, with \<open>Inl\<close> for the exception.
  \<open>FastAPIError\<close> carries its message; \<open>Propagated\<close> is an exception of a callee that
  the function does not catch, by the name of its class.
\<close>

datatype py_error = ValueError | FastAPIError string | Propagated string

section \<open>The builtin \<^verbatim>\<open>int(str)\<close>\<close>

text \<open>
  \<^verbatim>\<open>int(s)\<close> on a string, base 10: surrounding whitespace is stripped, one sign is
  accepted, then at least one digit, with single underscores allowed between digits.
  Anything else raises \<^verbatim>\<open>ValueError\<close> (here \<open>None\<close>). Strings are ASCII: the
  whitespace characters are the ASCII ones of \<^verbatim>\<open>str.isspace\<close>
  (9-13, 28-31 and 32), the digits are 0-9.
\<close>

definition is_space :: "char \<Rightarrow> bool" where
  "is_space c = (let n = (of_char c :: nat) in (9 \<le> n \<and> n \<le> 13) \<or> (28 \<le> n \<and> n \<le> 32))"

definition is_digit :: "char \<Rightarrow> bool" where
  "is_digit c = (let n = (of_char c :: nat) in 48 \<le> n \<and> n \<le> 57)"

definition digit_val :: "char \<Rightarrow> int" where
  "digit_val c = int (of_char c) - 48"

definition strip :: "string \<Rightarrow> string" where
  "strip s = rev (dropWhile is_space (rev (dropWhile is_space s)))"

fun parse_digits :: "int \<Rightarrow> string \<Rightarrow> int option" where
  "parse_digits acc [] = Some acc"
| "parse_digits acc [c] =
     (if is_digit c then Some (10 * acc + digit_val c) else None)"
| "parse_digits acc (c # d # ds) =
     (if is_digit c then parse_digits (10 * acc + digit_val c) (d # ds)
      else if c = CHR ''_'' \<and> is_digit d then parse_digits (10 * acc + digit_val d) ds
      else None)"

definition parse_unsigned :: "string \<Rightarrow> int option" where
  "parse_unsigned s =
     (case s of
        [] \<Rightarrow> None
      | c # cs \<Rightarrow> if is_digit c then parse_digits (digit_val c) cs else None)"

definition py_int_of_str :: "string \<Rightarrow> int option" where
  "py_int_of_str s =
     (case strip s of
        [] \<Rightarrow> None
      | c # cs \<Rightarrow>
          if c = CHR ''-'' then map_option uminus (parse_unsigned cs)
          else if c = CHR ''+'' then parse_unsigned cs
          else parse_unsigned (c # cs))"

section \<open>\<^verbatim>\<open>is_body_allowed_for_status_code\<close>\<close>

text \<open>The argument has type \<^verbatim>\<open>Union[int, str, None]\<close>.\<close>

datatype status_code = NoneCode | IntCode int | StrCode string

definition status_tokens :: "string list" where
  "status_tokens = [''default'', ''1XX'', ''2XX'', ''3XX'', ''4XX'', ''5XX'']"

text \<open>
  \<^verbatim>\<open>int(status_code)\<close>: the identity on an integer, the parse of a string, which
  may raise \<^verbatim>\<open>ValueError\<close>.
\<close>

fun py_int :: "status_code \<Rightarrow> py_error + int" where
  "py_int (IntCode n) = Inr n"
| "py_int (StrCode s) = (case py_int_of_str s of None \<Rightarrow> Inl ValueError | Some n \<Rightarrow> Inr n)"
| "py_int NoneCode = Inl (Propagated ''TypeError'')"

definition in_status_tokens :: "status_code \<Rightarrow> bool" where
  "in_status_tokens c = (case c of StrCode s \<Rightarrow> s \<in> set status_tokens | _ \<Rightarrow> False)"

definition is_body_allowed_for_status_code :: "status_code \<Rightarrow> py_error + bool" where
  "is_body_allowed_for_status_code status_code =
     (if status_code = NoneCode then Inr True
      else if in_status_tokens status_code then Inr True
      else case py_int status_code of
             Inl e \<Rightarrow> Inl e
           | Inr current_status_code \<Rightarrow>
               Inr (\<not> (current_status_code < 200 \<or> current_status_code \<in> {204, 304})))"

section \<open>\<^verbatim>\<open>get_path_param_names\<close>\<close>

text \<open>
  \<^verbatim>\<open>re.findall("{(.*?)}", path)\<close>. At a position holding an opening brace the
  pattern matches when the lazy group \<^verbatim>\<open>(.*?)\<close> can reach a closing brace: the
  group is the text up to the first closing brace, and it exists only if no line feed
  comes before that brace, since \<^verbatim>\<open>.\<close> does not match a line feed.
  \<open>lazy_group cs\<close> is that match on the text after the opening brace: the group and
  the text after the closing brace.
\<close>

fun lazy_group :: "string \<Rightarrow> (string \<times> string) option" where
  "lazy_group [] = None"
| "lazy_group (c # cs) =
     (if c = CHR ''}'' then Some ([], cs)
      else if c = CHR 0x0A then None
      else map_option (\<lambda>(g, r). (c # g, r)) (lazy_group cs))"

text \<open>
  \<^verbatim>\<open>findall\<close> scans from the left: after a match it goes on behind the match, and
  where there is none it goes on at the next character.
\<close>

function findall :: "string \<Rightarrow> string list" where
  "findall [] = []"
| "findall (c # cs) =
     (if c = CHR ''{'' then
        (case lazy_group cs of
           Some (g, r) \<Rightarrow> g # findall r
         | None \<Rightarrow> findall cs)
      else findall cs)"
  by pat_completeness auto
termination
proof -
  have shorter: "lazy_group cs = Some (g, r) \<Longrightarrow> length r < length cs" for cs g r
    by (induction cs arbitrary: g) (auto split: if_splits)
  show ?thesis
    by (relation "measure length") (auto dest: shorter)
qed

definition get_path_param_names :: "string \<Rightarrow> string set" where
  "get_path_param_names path = set (findall path)"

text \<open>
  A path template as a sequence of segments: literal text and brace-delimited names.
  \<open>render\<close> writes the template as the string that \<^verbatim>\<open>get_path_param_names\<close>
  receives, \<open>param_names\<close> is the set of names between its brace delimiters.
\<close>

datatype segment = Literal string | Param string

fun render :: "segment list \<Rightarrow> string" where
  "render [] = []"
| "render (Literal s # segs) = s @ render segs"
| "render (Param n # segs) = CHR ''{'' # n @ CHR ''}'' # render segs"

fun param_names :: "segment list \<Rightarrow> string set" where
  "param_names [] = {}"
| "param_names (Literal s # segs) = param_names segs"
| "param_names (Param n # segs) = insert n (param_names segs)"

text \<open>Literal text holds no brace, a name holds no brace.\<close>

fun brace_free :: "string \<Rightarrow> bool" where
  "brace_free s = (CHR ''{'' \<notin> set s \<and> CHR ''}'' \<notin> set s)"

fun template_ok :: "segment list \<Rightarrow> bool" where
  "template_ok [] = True"
| "template_ok (Literal s # segs) = (brace_free s \<and> template_ok segs)"
| "template_ok (Param n # segs) = (brace_free n \<and> template_ok segs)"

fun single_line_names :: "segment list \<Rightarrow> bool" where
  "single_line_names [] = True"
| "single_line_names (Literal s # segs) = single_line_names segs"
| "single_line_names (Param n # segs) = (CHR 0x0A \<notin> set n \<and> single_line_names segs)"

section \<open>\<^verbatim>\<open>deep_dict_update\<close>\<close>





section \<open>\<^verbatim>\<open>get_value_or_default\<close>\<close>

text \<open>
  An item is a \<^verbatim>\<open>DefaultPlaceholder\<close> wrapping a value, or a value that was set.
\<close>

datatype 'a item = DefaultPlaceholder 'a | SetValue 'a

fun is_placeholder :: "'a item \<Rightarrow> bool" where
  "is_placeholder (DefaultPlaceholder v) = True"
| "is_placeholder (SetValue v) = False"

text \<open>The loop over \<^verbatim>\<open>items\<close>, falling through to \<^verbatim>\<open>return first_item\<close>.\<close>

fun first_set_item :: "'a item \<Rightarrow> 'a item list \<Rightarrow> 'a item" where
  "first_set_item first_item [] = first_item"
| "first_set_item first_item (i # items) =
     (if \<not> is_placeholder i then i else first_set_item first_item items)"

definition get_value_or_default :: "'a item \<Rightarrow> 'a item list \<Rightarrow> 'a item" where
  "get_value_or_default first_item extra_items =
     first_set_item first_item (first_item # extra_items)"

section \<open>\<^verbatim>\<open>create_response_field\<close>\<close>

text \<open>
  \<^verbatim>\<open>Undefined\<close> is the sentinel of an argument that was not given. Validators, configs
  and default values are opaque objects, known by their identity.
\<close>

type_synonym pyobj = nat

datatype 'v py_default = Undefined | Given 'v

text \<open>\<^verbatim>\<open>FieldInfo(annotation=..., default=..., alias=...)\<close>; \<^verbatim>\<open>FieldInfo()\<close> leaves all three out.\<close>

record 't field_info =
  fi_annotation :: "'t option"
  fi_default :: "pyobj py_default"
  fi_alias :: "string option"

text \<open>The keyword arguments handed to \<^verbatim>\<open>ModelField\<close>; the last six only without Pydantic 2.\<close>

record 't v1_kwargs =
  kw_type :: 't
  kw_class_validators :: "(string \<times> pyobj) list"
  kw_default :: "pyobj py_default"
  kw_required :: "bool py_default"
  kw_model_config :: pyobj
  kw_alias :: "string option"

record 't kwargs =
  kw_name :: string
  kw_field_info :: "'t field_info"
  kw_v1 :: "'t v1_kwargs option"

text \<open>
  \<^verbatim>\<open>ModelField\<close> belongs to the validation library. Its constructor is a parameter:
  it returns the field or raises. \<^verbatim>\<open>RuntimeError\<close> stands for that class and its
  subclasses, \<open>OtherError\<close> for an exception of any other class, by name.
\<close>

datatype ctor_error = RuntimeError | PydanticSchemaGenerationError | OtherError string

definition invalid_args_message :: "string \<Rightarrow> string" where
  "invalid_args_message type_text =
     ''Invalid args for response field! Hint: '' @
     ''check that '' @ type_text @ '' is a valid Pydantic field type. '' @
     ''If you are using a return type annotation that is not a valid Pydantic '' @
     ''field (e.g. Union[Response, dict, None]) you can disable generating the '' @
     ''response model from the type annotation with the path operation decorator '' @
     ''parameter response_model=None. Read more: '' @
     ''https://fastapi.tiangolo.com/tutorial/response-model/''"

definition response_field_kwargs ::
  "bool \<Rightarrow> string \<Rightarrow> 't \<Rightarrow> (string \<times> pyobj) list option \<Rightarrow> pyobj py_default \<Rightarrow>
   bool py_default \<Rightarrow> pyobj \<Rightarrow> 't field_info option \<Rightarrow> string option \<Rightarrow> 't kwargs" where
  "response_field_kwargs pydantic_v2 name type' class_validators default' required
       model_config field_info alias =
     (let class_validators = (case class_validators of None \<Rightarrow> [] | Some cv \<Rightarrow> cv);
          field_info =
            (case field_info of
               Some fi \<Rightarrow> fi
             | None \<Rightarrow>
                 if pydantic_v2
                 then \<lparr>fi_annotation = Some type', fi_default = default', fi_alias = alias\<rparr>
                 else \<lparr>fi_annotation = None, fi_default = Undefined, fi_alias = None\<rparr>)
      in \<lparr>kw_name = name, kw_field_info = field_info,
          kw_v1 =
            (if \<not> pydantic_v2
             then Some \<lparr>kw_type = type', kw_class_validators = class_validators,
                        kw_default = default', kw_required = required,
                        kw_model_config = model_config, kw_alias = alias\<rparr>
             else None)\<rparr>)"

text \<open>
  \<open>type_text\<close> is \<^verbatim>\<open>str(type_)\<close>, as the f-string of the message formats it.
\<close>

definition create_response_field ::
  "bool \<Rightarrow> ('t kwargs \<Rightarrow> ctor_error + 'f) \<Rightarrow> ('t \<Rightarrow> string) \<Rightarrow> string \<Rightarrow> 't \<Rightarrow>
   (string \<times> pyobj) list option \<Rightarrow> pyobj py_default \<Rightarrow> bool py_default \<Rightarrow> pyobj \<Rightarrow>
   't field_info option \<Rightarrow> string option \<Rightarrow> py_error + 'f" where
  "create_response_field pydantic_v2 model_field type_text name type' class_validators default'
       required model_config field_info alias =
     (case model_field (response_field_kwargs pydantic_v2 name type' class_validators default'
                          required model_config field_info alias) of
        Inr new_field \<Rightarrow> Inr new_field
      | Inl RuntimeError \<Rightarrow> Inl (FastAPIError (invalid_args_message (type_text type')))
      | Inl PydanticSchemaGenerationError \<Rightarrow>
          Inl (FastAPIError (invalid_args_message (type_text type')))
      | Inl (OtherError e) \<Rightarrow> Inl (Propagated e))"

fun is_fastapi_error :: "py_error + 'a \<Rightarrow> bool" where
  "is_fastapi_error (Inl (FastAPIError msg)) = True"
| "is_fastapi_error r = False"

text \<open>
  A constructor that rejects every type the way the validation library rejects an
  unsupported generic: with a \<^verbatim>\<open>TypeError\<close>.
\<close>

definition unsupported_type_ctor :: "string kwargs \<Rightarrow> ctor_error + unit" where
  "unsupported_type_ctor kw = Inl (OtherError ''TypeError'')"

definition no_validator_ctor :: "string kwargs \<Rightarrow> ctor_error + unit" where
  "no_validator_ctor kw = Inl RuntimeError"

definition accepting_ctor :: "string kwargs \<Rightarrow> ctor_error + unit" where
  "accepting_ctor kw = Inr ()"

section \<open>Properties of \<^verbatim>\<open>is_body_allowed_for_status_code\<close>\<close>

lemmas body_defs =
  is_body_allowed_for_status_code_def in_status_tokens_def status_tokens_def


text \<open>
  C1. The predicate follows the case table: \<^verbatim>\<open>None\<close> and the six tokens give true,
  204 and 304 give false, every other integer from 200 through 599 gives true, every
  integer below 200 gives false.
\<close>

theorem body_allowed_case_table:
  "is_body_allowed_for_status_code NoneCode = Inr True
   \<and> (\<forall>t \<in> {''default'', ''1XX'', ''2XX'', ''3XX'', ''4XX'', ''5XX''}.
         is_body_allowed_for_status_code (StrCode t) = Inr True)
   \<and> is_body_allowed_for_status_code (IntCode 204) = Inr False
   \<and> is_body_allowed_for_status_code (IntCode 304) = Inr False
   \<and> (200 \<le> n \<and> n \<le> 599 \<and> n \<noteq> 204 \<and> n \<noteq> 304 \<longrightarrow>
         is_body_allowed_for_status_code (IntCode n) = Inr True)
   \<and> (n < 200 \<longrightarrow> is_body_allowed_for_status_code (IntCode n) = Inr False)"
  by (simp add: body_defs)

theorem body_allowed_case_table_witness:
  "''2XX'' \<in> {''default'', ''1XX'', ''2XX'', ''3XX'', ''4XX'', ''5XX''}
   \<and> is_body_allowed_for_status_code (StrCode ''2XX'') = Inr True
   \<and> (200::int) \<le> 404 \<and> (404::int) \<le> 599 \<and> (404::int) \<noteq> 204 \<and> (404::int) \<noteq> 304
   \<and> is_body_allowed_for_status_code (IntCode 404) = Inr True
   \<and> (100::int) < 200
   \<and> is_body_allowed_for_status_code (IntCode 100) = Inr False"
  using body_allowed_case_table [of 404] body_allowed_case_table [of 100] by simp

text \<open>
  C8, as stated: every code from 300 through 399 gives false. The code 301 gives true.
\<close>

theorem body_allowed_redirect_counterexample:
  "(300::int) \<le> 301 \<and> (301::int) \<le> 399
   \<and> is_body_allowed_for_status_code (IntCode 301) \<noteq> Inr False"
  by (simp add: body_defs)

text \<open>
  C8, amended. An integer code gives false exactly when it is below 200 (so for all of
  100 through 199) or is 204 or 304; of the codes 300 through 399 only 304 gives false.
\<close>

theorem body_allowed_no_body_codes:
  "(is_body_allowed_for_status_code (IntCode n) = Inr False \<longleftrightarrow> n < 200 \<or> n = 204 \<or> n = 304)
   \<and> (is_body_allowed_for_status_code (IntCode n) = Inr True
        \<longleftrightarrow> \<not> (n < 200 \<or> n = 204 \<or> n = 304))
   \<and> (300 \<le> n \<and> n \<le> 399 \<and> n \<noteq> 304 \<longrightarrow>
        is_body_allowed_for_status_code (IntCode n) = Inr True)"
  by (auto simp add: body_defs)

theorem body_allowed_no_body_codes_witness:
  "is_body_allowed_for_status_code (IntCode 150) = Inr False
   \<and> is_body_allowed_for_status_code (IntCode 304) = Inr False
   \<and> (300::int) \<le> 307 \<and> (307::int) \<le> 399 \<and> (307::int) \<noteq> 304
   \<and> is_body_allowed_for_status_code (IntCode 307) = Inr True"
  using body_allowed_no_body_codes [of 150] body_allowed_no_body_codes [of 304]
    body_allowed_no_body_codes [of 307]
  by simp



section \<open>Properties of \<^verbatim>\<open>get_path_param_names\<close>\<close>

lemma findall_skip: "CHR ''{'' \<notin> set s \<Longrightarrow> findall (s @ r) = findall r"
  by (induction s) auto

lemma lazy_group_name:
  "CHR ''}'' \<notin> set n \<Longrightarrow> CHR 0x0A \<notin> set n \<Longrightarrow> lazy_group (n @ CHR ''}'' # r) = Some (n, r)"
  by (induction n) auto

lemma findall_render:
  "template_ok segs \<Longrightarrow> single_line_names segs \<Longrightarrow>
   set (findall (render segs)) = param_names segs"
proof (induction segs rule: render.induct)
  case 1
  then show ?case by simp
next
  case (2 s segs)
  then show ?case by (simp add: findall_skip)
next
  case (3 n segs)
  then show ?case by (simp add: lazy_group_name)
qed

text \<open>
  C9, as stated: on every template the result is the set of the names between brace
  delimiters. A name that holds a line feed is not returned.
\<close>

theorem get_path_param_names_line_feed_counterexample:
  "template_ok [Param [CHR ''a'', CHR 0x0A, CHR ''b'']]
   \<and> get_path_param_names (render [Param [CHR ''a'', CHR 0x0A, CHR ''b'']])
       \<noteq> param_names [Param [CHR ''a'', CHR 0x0A, CHR ''b'']]"
  by (simp add: get_path_param_names_def)

text \<open>
  C9, amended. On every template whose names hold no line feed the result is the set of
  the names between brace delimiters, duplicates collapsed; on
  \<^verbatim>\<open>/items/{id}/sub/{name}\<close> it is the set of \<^verbatim>\<open>id\<close> and \<^verbatim>\<open>name\<close>.
\<close>

theorem get_path_param_names_template:
  "(template_ok segs \<and> single_line_names segs \<longrightarrow>
      get_path_param_names (render segs) = param_names segs)
   \<and> get_path_param_names ''/items/{id}/sub/{name}'' = {''id'', ''name''}"
proof -
  have "get_path_param_names ''/items/{id}/sub/{name}'' = {''id'', ''name''}"
    by (simp add: get_path_param_names_def)
  then show ?thesis
    by (simp add: get_path_param_names_def findall_render)
qed

theorem get_path_param_names_template_witness:
  "template_ok [Literal ''/items/'', Param ''id'', Literal ''/sub/'', Param ''name'',
                Literal ''/'', Param ''id'']
   \<and> single_line_names [Literal ''/items/'', Param ''id'', Literal ''/sub/'', Param ''name'',
                Literal ''/'', Param ''id'']
   \<and> render [Literal ''/items/'', Param ''id'', Literal ''/sub/'', Param ''name'',
                Literal ''/'', Param ''id'']
       = ''/items/{id}/sub/{name}/{id}''
   \<and> get_path_param_names ''/items/{id}/sub/{name}/{id}'' = {''id'', ''name''}"
  using get_path_param_names_template
    [of "[Literal ''/items/'', Param ''id'', Literal ''/sub/'', Param ''name'',
          Literal ''/'', Param ''id'']"]
  by (simp add: insert_commute)

section \<open>Properties of \<^verbatim>\<open>deep_dict_update\<close>\<close>












section \<open>Properties of \<^verbatim>\<open>get_value_or_default\<close>\<close>

lemma first_set_item_split:
  "\<exists>i \<in> set items. \<not> is_placeholder i \<Longrightarrow>
   \<exists>pre post. items = pre @ first_set_item d items # post
      \<and> (\<forall>p \<in> set pre. is_placeholder p) \<and> \<not> is_placeholder (first_set_item d items)"
proof (induction items)
  case Nil
  then show ?case by simp
next
  case (Cons i items)
  show ?case
  proof (cases "is_placeholder i")
    case False
    then have "i # items = [] @ first_set_item d (i # items) # items" by simp
    with False show ?thesis
      by (metis empty_iff first_set_item.simps(2) list.set(1))
  next
    case True
    with Cons.prems have "\<exists>j \<in> set items. \<not> is_placeholder j" by auto
    from Cons.IH [OF this] obtain pre post where
      "items = pre @ first_set_item d items # post" "\<forall>p \<in> set pre. is_placeholder p"
      "\<not> is_placeholder (first_set_item d items)" by blast
    with True have "i # items = (i # pre) @ first_set_item d (i # items) # post
       \<and> (\<forall>p \<in> set (i # pre). is_placeholder p)
       \<and> \<not> is_placeholder (first_set_item d (i # items))"
      by simp
    then show ?thesis by blast
  qed
qed

lemma first_set_item_all_placeholders:
  "\<forall>i \<in> set items. is_placeholder i \<Longrightarrow> first_set_item d items = d"
  by (induction items) auto

text \<open>
  C4. If some item is not a placeholder, the result is the first such item: the items
  before it are all placeholders. If every item is a placeholder, the result is the
  first item.
\<close>

theorem get_value_or_default_first_set:
  "((\<exists>i \<in> set (first_item # extra_items). \<not> is_placeholder i) \<longrightarrow>
      (\<exists>pre post.
         first_item # extra_items = pre @ get_value_or_default first_item extra_items # post
         \<and> (\<forall>p \<in> set pre. is_placeholder p)
         \<and> \<not> is_placeholder (get_value_or_default first_item extra_items)))
   \<and> ((\<forall>i \<in> set (first_item # extra_items). is_placeholder i) \<longrightarrow>
         get_value_or_default first_item extra_items = first_item)"
  unfolding get_value_or_default_def
  using first_set_item_split [of "first_item # extra_items" first_item]
    first_set_item_all_placeholders [of "first_item # extra_items" first_item]
  by blast

theorem get_value_or_default_first_set_witness:
  "\<not> is_placeholder (SetValue (2::int))
   \<and> get_value_or_default (DefaultPlaceholder (1::int)) [SetValue 2, DefaultPlaceholder 3]
       = SetValue 2
   \<and> is_placeholder (DefaultPlaceholder (1::int)) \<and> is_placeholder (DefaultPlaceholder (3::int))
   \<and> get_value_or_default (DefaultPlaceholder (1::int)) [DefaultPlaceholder 3]
       = DefaultPlaceholder 1"
  using get_value_or_default_first_set
      [of "DefaultPlaceholder (1::int)" "[SetValue 2, DefaultPlaceholder 3]"]
    get_value_or_default_first_set [of "DefaultPlaceholder (1::int)" "[DefaultPlaceholder 3]"]
  by (simp add: get_value_or_default_def)

section \<open>Properties of \<^verbatim>\<open>create_response_field\<close>\<close>

text \<open>
  C6, as stated: \<^verbatim>\<open>FastAPIError\<close> is raised whenever the construction of the
  \<^verbatim>\<open>ModelField\<close> fails. A constructor that fails with an exception outside the
  \<^verbatim>\<open>except\<close> clause, here a \<^verbatim>\<open>TypeError\<close>, is not answered with \<^verbatim>\<open>FastAPIError\<close>.
\<close>

theorem create_response_field_other_error_counterexample:
  "isl (unsupported_type_ctor
          (response_field_kwargs False ''item'' ''Awaitable[int]'' None Undefined Undefined 0
             None None))
   \<and> \<not> is_fastapi_error
         (create_response_field False unsupported_type_ctor id ''item'' ''Awaitable[int]''
            None Undefined Undefined 0 None None)"
  by (simp add: create_response_field_def unsupported_type_ctor_def)

text \<open>
  C6, amended. \<^verbatim>\<open>FastAPIError\<close>, with the message that names the type, is raised if
  and only if the construction of the \<^verbatim>\<open>ModelField\<close> raises \<^verbatim>\<open>RuntimeError\<close> or
  \<^verbatim>\<open>PydanticSchemaGenerationError\<close>; when the construction succeeds the constructed
  field is returned; any other exception of the construction propagates unchanged.
\<close>

theorem create_response_field_errors:
  "(is_fastapi_error (create_response_field v2 model_field type_text name type' class_validators
        default' required model_config field_info alias)
      \<longleftrightarrow> model_field (response_field_kwargs v2 name type' class_validators default'
              required model_config field_info alias)
            \<in> {Inl RuntimeError, Inl PydanticSchemaGenerationError})
   \<and> (is_fastapi_error (create_response_field v2 model_field type_text name type'
        class_validators default' required model_config field_info alias) \<longrightarrow>
       create_response_field v2 model_field type_text name type' class_validators default'
        required model_config field_info alias
         = Inl (FastAPIError (invalid_args_message (type_text type'))))
   \<and> (\<forall>new_field. model_field (response_field_kwargs v2 name type' class_validators default'
              required model_config field_info alias) = Inr new_field \<longrightarrow>
        create_response_field v2 model_field type_text name type' class_validators default'
        required model_config field_info alias = Inr new_field)
   \<and> (\<forall>e. model_field (response_field_kwargs v2 name type' class_validators default'
              required model_config field_info alias) = Inl (OtherError e) \<longrightarrow>
        create_response_field v2 model_field type_text name type' class_validators default'
        required model_config field_info alias = Inl (Propagated e))"
  by (auto simp: create_response_field_def split: sum.splits ctor_error.splits)

theorem create_response_field_errors_witness:
  "is_fastapi_error (create_response_field False no_validator_ctor id ''item'' ''Response''
      None Undefined Undefined 0 None None)
   \<and> create_response_field False no_validator_ctor id ''item'' ''Response''
      None Undefined Undefined 0 None None
       = Inl (FastAPIError (invalid_args_message ''Response''))
   \<and> create_response_field True accepting_ctor id ''item'' ''int''
      None Undefined Undefined 0 None None = Inr ()
   \<and> create_response_field False unsupported_type_ctor id ''item'' ''Awaitable[int]''
      None Undefined Undefined 0 None None
       = Inl (Propagated ''TypeError'')"
  using create_response_field_errors
      [of False no_validator_ctor id "''item''" "''Response''" None Undefined Undefined 0 None None]
    create_response_field_errors
      [of True accepting_ctor id "''item''" "''int''" None Undefined Undefined 0 None None]
    create_response_field_errors
      [of False unsupported_type_ctor id "''item''" "''Awaitable[int]''" None Undefined Undefined 0
          None None]
  by (simp add: no_validator_ctor_def accepting_ctor_def unsupported_type_ctor_def)

end
